theory Spec2Isabelle
  imports Main
begin

section \<open>Python values, exceptions and strings\<close>

text \<open>
  The program is one Python module (main.py): a FastAPI endpoint that asks an LLM for a SQL
  statement, runs it on MySQL and asks the LLM to phrase the rows as an answer. Its values
  are dynamically typed, so they are embedded in one datatype. A Python \<open>str\<close> is an
  Isabelle \<open>string\<close> whose characters are the code points below 256; a dictionary is
  an association list in insertion order with distinct keys; \<open>PObj\<close> is an immutable
  object with no JSON form that the MySQL connector hands out for some column types
  (datetime, Decimal, bytes), named by its type; a float is named by its repr.
\<close>

datatype pyval =
    PNone
  | PBool bool
  | PInt int
  | PFloat string
  | PStr string
  | PList "pyval list"
  | PDict "(pyval \<times> pyval) list"
  | PObj string

text \<open>
  The exceptions the module can meet, each carrying the text of \<open>str(e)\<close>. All of them
  are subclasses of \<open>Exception\<close>, so \<open>except Exception\<close> catches every one of them;
  \<open>MySQLError\<close> is \<open>mysql.connector.Error\<close>. Signals that derive from
  \<open>BaseException\<close> only (KeyboardInterrupt, task cancellation) are not modelled.
\<close>

datatype exn =
    MySQLError string
  | TypeError string
  | KeyError string
  | IndexError string
  | AttributeError string
  | ValueError string
  | OtherError string

fun str_exn :: "exn \<Rightarrow> string" where
  "str_exn (MySQLError m) = m"
| "str_exn (TypeError m) = m"
| "str_exn (KeyError m) = m"
| "str_exn (IndexError m) = m"
| "str_exn (AttributeError m) = m"
| "str_exn (ValueError m) = m"
| "str_exn (OtherError m) = m"

subsection \<open>str.strip, str.upper, startswith, endswith, substring test\<close>

definition py_isspace :: "char \<Rightarrow> bool" where
  \<comment> \<open>\<open>str.isspace\<close> on the code points below 256: TAB..CR, FS..US, space, NEL, NBSP\<close>
  "py_isspace c =
     (let n = (of_char c :: nat)
      in (9 \<le> n \<and> n \<le> 13) \<or> (28 \<le> n \<and> n \<le> 32) \<or> n = 133 \<or> n = 160)"

definition py_strip :: "string \<Rightarrow> string" where
  "py_strip s = rev (dropWhile py_isspace (rev (dropWhile py_isspace s)))"

definition upper_char :: "char \<Rightarrow> string" where
  \<comment> \<open>\<open>str.upper\<close> of one character: a..z and the Latin-1 lower-case letters move down
      by 32, the sharp s becomes SS; the micro sign and y with diaeresis, whose capitals lie
      beyond code point 255, are left as they are\<close>
  "upper_char c =
     (let n = (of_char c :: nat)
      in if 97 \<le> n \<and> n \<le> 122 then [char_of (n - 32)]
         else if n = 223 then ''SS''
         else if 224 \<le> n \<and> n \<le> 254 \<and> n \<noteq> 247 then [char_of (n - 32)]
         else [c])"

definition py_upper :: "string \<Rightarrow> string" where
  "py_upper s = concat (map upper_char s)"

definition startswith :: "string \<Rightarrow> string \<Rightarrow> bool" where
  "startswith s p = (take (length p) s = p)"

definition endswith :: "string \<Rightarrow> string \<Rightarrow> bool" where
  "endswith s p = (length p \<le> length s \<and> drop (length s - length p) s = p)"

fun contains_str :: "string \<Rightarrow> string \<Rightarrow> bool" where
  \<comment> \<open>\<open>p in s\<close> for two strings\<close>
  "contains_str p [] = (p = [])"
| "contains_str p (c # cs) = (startswith (c # cs) p \<or> contains_str p cs)"

subsection \<open>Dictionaries and the dynamic operations the module uses\<close>

fun dict_set :: "(pyval \<times> pyval) list \<Rightarrow> pyval \<Rightarrow> pyval \<Rightarrow> (pyval \<times> pyval) list" where
  \<comment> \<open>\<open>d[k] = v\<close>: an existing key keeps its place\<close>
  "dict_set [] k v = [(k, v)]"
| "dict_set ((k', v') # d) k v = (if k' = k then (k, v) # d else (k', v') # dict_set d k v)"

definition hashable :: "pyval \<Rightarrow> bool" where
  "hashable v = (case v of PList _ \<Rightarrow> False | PDict _ \<Rightarrow> False | _ \<Rightarrow> True)"

definition py_in :: "string \<Rightarrow> pyval \<Rightarrow> exn + bool" where
  \<comment> \<open>\<open>"key" in x\<close>: key membership in a dict, substring test in a str, element test in a
      list, TypeError on anything that is not a container\<close>
  "py_in k x =
     (case x of
        PDict d \<Rightarrow> Inr (map_of d (PStr k) \<noteq> None)
      | PStr s \<Rightarrow> Inr (contains_str k s)
      | PList xs \<Rightarrow> Inr (PStr k \<in> set xs)
      | _ \<Rightarrow> Inl (TypeError ''argument is not iterable''))"

definition py_getitem :: "pyval \<Rightarrow> string \<Rightarrow> exn + pyval" where
  \<comment> \<open>\<open>x["key"]\<close>: KeyError on a dict without the key, TypeError on everything else\<close>
  "py_getitem x k =
     (case x of
        PDict d \<Rightarrow> (case map_of d (PStr k) of
                      None \<Rightarrow> Inl (KeyError ([CHR 0x27] @ k @ [CHR 0x27]))
                    | Some v \<Rightarrow> Inr v)
      | PStr s \<Rightarrow> Inl (TypeError ''string indices must be integers'')
      | PList xs \<Rightarrow> Inl (TypeError ''list indices must be integers or slices, not str'')
      | _ \<Rightarrow> Inl (TypeError ''object is not subscriptable''))"

definition py_get :: "pyval \<Rightarrow> string \<Rightarrow> pyval \<Rightarrow> exn + pyval" where
  \<comment> \<open>\<open>x.get("key", default)\<close>: only a dict has the method\<close>
  "py_get x k dflt =
     (case x of
        PDict d \<Rightarrow> (case map_of d (PStr k) of None \<Rightarrow> Inr dflt | Some v \<Rightarrow> Inr v)
      | _ \<Rightarrow> Inl (AttributeError ''object has no attribute get''))"

definition is_error_dict :: "pyval \<Rightarrow> bool" where
  \<comment> \<open>\<open>isinstance(result, dict) and "error" in result\<close>\<close>
  "is_error_dict x = (case x of PDict d \<Rightarrow> map_of d (PStr ''error'') \<noteq> None | _ \<Rightarrow> False)"

section \<open>The collaborators: database, LLM, json\<close>

text \<open>
  Every call that leaves the module is written to a trace together with whether it
  returned normally, and so is every entry into \<open>query\<close> and \<open>build_answer\<close>. What a
  collaborator answers is a parameter of the model (an \<open>env\<close>), and may depend on the whole
  trace so far: the theorems hold for every database and every LLM.
  Constructing \<open>genai.GenerativeModel\<close> sends nothing and is taken not to raise; the
  calls of \<open>logger\<close> change no result and are left out.
\<close>

datatype db_op = Connect | Cursor | Execute pyval | Fetchall | Commit | CursorClose | ConnClose

type_synonym content = "string \<times> string list"

datatype event =
    Db db_op bool
  | Llm string "content list" bool
  | Call_query pyval
  | Call_build_answer pyval pyval

type_synonym world = "event list"

record env =
  db_raises :: "world \<Rightarrow> db_op \<Rightarrow> exn option"
  db_rows :: "world \<Rightarrow> (pyval \<times> pyval) list list"
  llm_reply :: "world \<Rightarrow> string \<Rightarrow> content list \<Rightarrow> exn + string"
  json_loads :: "string \<Rightarrow> exn + pyval"
  json_text :: "pyval \<Rightarrow> string"
  py_repr :: "pyval \<Rightarrow> string"

definition db_call :: "env \<Rightarrow> db_op \<Rightarrow> world \<Rightarrow> (exn + unit) \<times> world" where
  "db_call E op w =
     (case db_raises E w op of
        Some e \<Rightarrow> (Inl e, w @ [Db op False])
      | None \<Rightarrow> (Inr (), w @ [Db op True]))"

definition db_fetchall :: "env \<Rightarrow> world \<Rightarrow> (exn + (pyval \<times> pyval) list list) \<times> world" where
  "db_fetchall E w =
     (case db_raises E w Fetchall of
        Some e \<Rightarrow> (Inl e, w @ [Db Fetchall False])
      | None \<Rightarrow> (Inr (db_rows E w), w @ [Db Fetchall True]))"

definition generate_content :: "env \<Rightarrow> string \<Rightarrow> content list \<Rightarrow> world \<Rightarrow> (exn + string) \<times> world" where
  \<comment> \<open>\<open>(await model.generate_content_async(contents=...)).text\<close>\<close>
  "generate_content E model contents w =
     (case llm_reply E w model contents of
        Inl e \<Rightarrow> (Inl e, w @ [Llm model contents False])
      | Inr t \<Rightarrow> (Inr t, w @ [Llm model contents True]))"

definition py_format :: "env \<Rightarrow> pyval \<Rightarrow> string" where
  \<comment> \<open>a value inside an f-string: a str goes in as it is, anything else through \<open>str()\<close>\<close>
  "py_format E v = (case v of PStr s \<Rightarrow> s | _ \<Rightarrow> py_repr E v)"

definition bind :: "(world \<Rightarrow> (exn + 'a) \<times> world) \<Rightarrow> ('a \<Rightarrow> world \<Rightarrow> (exn + 'b) \<times> world)
    \<Rightarrow> world \<Rightarrow> (exn + 'b) \<times> world" where
  \<comment> \<open>sequencing: an exception of the first statement skips the rest\<close>
  "bind m f w = (case m w of (Inl e, w') \<Rightarrow> (Inl e, w') | (Inr x, w') \<Rightarrow> f x w')"

definition ret :: "'a \<Rightarrow> world \<Rightarrow> (exn + 'a) \<times> world" where
  "ret x w = (Inr x, w)"

definition raise :: "exn \<Rightarrow> world \<Rightarrow> (exn + 'a) \<times> world" where
  "raise e w = (Inl e, w)"

subsection \<open>json.dumps\<close>

definition json_key :: "pyval \<Rightarrow> bool" where
  \<comment> \<open>the key types the encoder accepts: str, int, float, bool and None\<close>
  "json_key k = (case k of PList _ \<Rightarrow> False | PDict _ \<Rightarrow> False | PObj _ \<Rightarrow> False | _ \<Rightarrow> True)"

fun serializable :: "pyval \<Rightarrow> bool" where
  "serializable (PObj _) = False"
| "serializable (PList xs) = list_all serializable xs"
| "serializable (PDict kvs) = list_all (\<lambda>kv. json_key (fst kv) \<and> serializable (snd kv)) kvs"
| "serializable _ = True"

definition json_dumps :: "env \<Rightarrow> pyval \<Rightarrow> exn + string" where
  \<comment> \<open>\<open>json.dumps(v, indent=2)\<close>: TypeError on a value the encoder has no form for,
      otherwise the text, which the model takes from \<open>json_text\<close>\<close>
  "json_dumps E v =
     (if serializable v then Inr (json_text E v)
      else Inl (TypeError ''Object is not JSON serializable''))"

section \<open>Database access\<close>

definition get_db_connection :: "env \<Rightarrow> world \<Rightarrow> (exn + unit) \<times> world" where
  \<comment> \<open>a \<open>mysql.connector.Error\<close> is logged and raised again, anything else is not caught:
      either way the caller sees the exception of \<open>connect\<close>\<close>
  "get_db_connection E w =
     (case db_call E Connect w of
        (Inl (MySQLError m), w') \<Rightarrow> (Inl (MySQLError m), w')
      | (Inl e, w') \<Rightarrow> (Inl e, w')
      | (Inr c, w') \<Rightarrow> (Inr c, w'))"

subsection \<open>get_schema\<close>

definition list_append :: "(pyval \<times> pyval) list \<Rightarrow> pyval \<Rightarrow> pyval \<Rightarrow> exn + (pyval \<times> pyval) list" where
  \<comment> \<open>\<open>schema_info[table_name].append(x)\<close>\<close>
  "list_append schema_info table_name x =
     (case map_of schema_info table_name of
        None \<Rightarrow> Inl (KeyError ''table_name'')
      | Some (PList xs) \<Rightarrow> Inr (dict_set schema_info table_name (PList (xs @ [x])))
      | Some _ \<Rightarrow> Inl (AttributeError ''object has no attribute append''))"

fun column_loop :: "(pyval \<times> pyval) list \<Rightarrow> pyval \<Rightarrow> (pyval \<times> pyval) list list
    \<Rightarrow> exn + (pyval \<times> pyval) list" where
  \<comment> \<open>\<open>for col in columns: schema_info[table_name].append({...})\<close>\<close>
  "column_loop schema_info table_name [] = Inr schema_info"
| "column_loop schema_info table_name (col # columns) =
     (case py_getitem (PDict col) ''Field'' of
        Inl e \<Rightarrow> Inl e
      | Inr field \<Rightarrow>
     (case py_getitem (PDict col) ''Type'' of
        Inl e \<Rightarrow> Inl e
      | Inr type \<Rightarrow>
     (case py_getitem (PDict col) ''Null'' of
        Inl e \<Rightarrow> Inl e
      | Inr null \<Rightarrow>
     (case list_append schema_info table_name
             (PDict [(PStr ''column_name'', field),
                     (PStr ''data_type'', type),
                     (PStr ''nullable'', PBool (null = PStr ''YES''))]) of
        Inl e \<Rightarrow> Inl e
      | Inr schema_info' \<Rightarrow> column_loop schema_info' table_name columns))))"

fun table_loop :: "env \<Rightarrow> (pyval \<times> pyval) list \<Rightarrow> (pyval \<times> pyval) list list \<Rightarrow> world
    \<Rightarrow> (exn + (pyval \<times> pyval) list) \<times> world" where
  \<comment> \<open>\<open>for table in tables: ...\<close>; the table name is the first value of the row\<close>
  "table_loop E schema_info [] w = (Inr schema_info, w)"
| "table_loop E schema_info (table # tables) w =
     (case map snd table of
        [] \<Rightarrow> (Inl (IndexError ''list index out of range''), w)
      | table_name # _ \<Rightarrow>
          if \<not> hashable table_name then (Inl (TypeError ''unhashable type''), w)
          else
            (case db_call E (Execute (PStr (''DESCRIBE '' @ py_format E table_name))) w of
               (Inl e, w1) \<Rightarrow> (Inl e, w1)
             | (Inr _, w1) \<Rightarrow>
            (case db_fetchall E w1 of
               (Inl e, w2) \<Rightarrow> (Inl e, w2)
             | (Inr columns, w2) \<Rightarrow>
            (case column_loop (dict_set schema_info table_name (PList [])) table_name columns of
               Inl e \<Rightarrow> (Inl e, w2)
             | Inr schema_info' \<Rightarrow> table_loop E schema_info' tables w2))))"

definition get_schema_try :: "env \<Rightarrow> world \<Rightarrow> (exn + (pyval \<times> pyval) list) \<times> world" where
  \<comment> \<open>the body of the \<open>try\<close> block\<close>
  "get_schema_try E =
     bind (get_db_connection E) (\<lambda>conn.
     bind (db_call E Cursor) (\<lambda>cursor.
     bind (db_call E (Execute (PStr ''SHOW TABLES''))) (\<lambda>_.
     bind (db_fetchall E) (\<lambda>tables.
     bind (table_loop E [] tables) (\<lambda>schema_info.
     bind (db_call E CursorClose) (\<lambda>_.
     bind (db_call E ConnClose) (\<lambda>_.
     ret schema_info)))))))"

definition error_dict :: "string \<Rightarrow> pyval" where
  "error_dict m = PDict [(PStr ''error'', PStr m)]"

definition get_schema :: "env \<Rightarrow> world \<Rightarrow> (exn + pyval) \<times> world" where
  \<comment> \<open>\<open>except Exception\<close> gives the error record; \<open>json.dumps\<close> runs after the \<open>try\<close>\<close>
  "get_schema E w =
     (case get_schema_try E w of
        (Inl e, w') \<Rightarrow> (Inr (error_dict (str_exn e)), w')
      | (Inr schema_info, w') \<Rightarrow>
          (case json_dumps E (PDict schema_info) of
             Inl e \<Rightarrow> (Inl e, w')
           | Inr s \<Rightarrow> (Inr (PStr s), w')))"

subsection \<open>query\<close>

definition is_select :: "string \<Rightarrow> bool" where
  \<comment> \<open>\<open>sql_query.strip().upper().startswith("SELECT")\<close>\<close>
  "is_select sql_query = startswith (py_upper (py_strip sql_query)) ''SELECT''"

definition ack :: pyval where
  "ack = PDict [(PStr ''message'', PStr ''Query executed successfully.'')]"

definition query_try :: "env \<Rightarrow> pyval \<Rightarrow> world \<Rightarrow> (exn + pyval) \<times> world" where
  \<comment> \<open>the body of the \<open>try\<close> block; an argument that is not a str has no \<open>strip\<close>\<close>
  "query_try E sql_query =
     bind (get_db_connection E) (\<lambda>conn.
     bind (db_call E Cursor) (\<lambda>cursor.
     bind (db_call E (Execute sql_query)) (\<lambda>_.
     bind (case sql_query of
             PStr s \<Rightarrow> ret (is_select s)
           | _ \<Rightarrow> raise (AttributeError ''object has no attribute strip'')) (\<lambda>select.
     bind (if select
           then bind (db_fetchall E) (\<lambda>rows. ret (PList (map PDict rows)))
           else bind (db_call E Commit) (\<lambda>_. ret ack)) (\<lambda>results.
     bind (db_call E CursorClose) (\<lambda>_.
     bind (db_call E ConnClose) (\<lambda>_.
     ret results)))))))"

definition query :: "env \<Rightarrow> pyval \<Rightarrow> world \<Rightarrow> (exn + pyval) \<times> world" where
  \<comment> \<open>the two handlers: \<open>mysql.connector.Error\<close> first, then \<open>Exception\<close>\<close>
  "query E sql_query w =
     (case query_try E sql_query (w @ [Call_query sql_query]) of
        (Inl (MySQLError m), w') \<Rightarrow> (Inr (error_dict (str_exn (MySQLError m))), w')
      | (Inl e, w') \<Rightarrow> (Inr (error_dict (str_exn e)), w')
      | (Inr results, w') \<Rightarrow> (Inr results, w'))"

section \<open>The two LLM stages\<close>

subsection \<open>The fixed texts\<close>

definition translate_system_message :: "string \<Rightarrow> string" where
  \<comment> \<open>the f-string \<open>system_message\<close> of \<open>human_query_to_sql\<close>\<close>
  \<open>translate_system_message database_schema =
     [CHR 0x0A] @
     ''    Dado el siguiente esquema de base de datos MySQL, escribe una consulta SQL que recupere la informaci'' @ [CHR 0xF3] @ ''n solicitada.'' @ [CHR 0x0A] @
     ''    Devuelve la consulta SQL dentro de una estructura JSON con la clave "sql_query".'' @ [CHR 0x0A] @
     ''    Aseg'' @ [CHR 0xFA] @ ''rate de que la consulta SQL sea v'' @ [CHR 0xE1] @ ''lida para MySQL.'' @ [CHR 0x0A] @
     ''    <example>{'' @ [CHR 0x0A] @
     ''        "sql_query": "SELECT nombre, lenguaje_principal FROM desarrolladores WHERE experiencia_anios > 5;",'' @ [CHR 0x0A] @
     ''        "original_query": "Mu'' @ [CHR 0xE9] @ ''strame los desarrolladores con m'' @ [CHR 0xE1] @ ''s de 5 a'' @ [CHR 0xF1] @ ''os de experiencia."'' @ [CHR 0x0A] @
     ''    }'' @ [CHR 0x0A] @
     ''    </example>'' @ [CHR 0x0A] @
     ''    <schema>'' @ [CHR 0x0A] @
     ''    '' @
     database_schema @
     [CHR 0x0A] @
     ''    </schema>'' @ [CHR 0x0A] @
     ''    ''\<close>

definition example_turn :: "string" where
  \<comment> \<open>the canned model turn that shows the expected format\<close>
  \<open>example_turn =
     ''```json'' @ [CHR 0x0A] @
     ''{'' @ [CHR 0x0A] @
     ''    "sql_query": "SELECT * FROM desarrolladores WHERE lenguaje_principal = '' @ [CHR 0x27] @ ''Java'' @ [CHR 0x27] @ '';",'' @ [CHR 0x0A] @
     ''    "original_query": "Buscar desarrolladores que sepan Java"'' @ [CHR 0x0A] @
     ''}'' @ [CHR 0x0A] @
     ''```''\<close>

definition answer_system_message :: "string \<Rightarrow> string \<Rightarrow> string" where
  \<comment> \<open>the f-string \<open>system_message\<close> of \<open>build_answer\<close>\<close>
  \<open>answer_system_message human_query sql_response =
     [CHR 0x0A] @
     ''    Dada la pregunta de un usuario y la respuesta en formato JSON de la base de datos de la cual el usuario quiere obtener la respuesta,'' @ [CHR 0x0A] @
     ''    escribe una respuesta amigable y concisa para la pregunta del usuario.'' @ [CHR 0x0A] @
     ''    Si la consulta result'' @ [CHR 0xF3] @ '' en una actualizaci'' @ [CHR 0xF3] @ ''n o eliminaci'' @ [CHR 0xF3] @ ''n, simplemente confirma la acci'' @ [CHR 0xF3] @ ''n.'' @ [CHR 0x0A] @
     ''    Si no hay resultados, ind'' @ [CHR 0xED] @ ''calo claramente.'' @ [CHR 0x0A] @
     [CHR 0x0A] @
     ''    <user_question>'' @ [CHR 0x0A] @
     ''    '' @
     human_query @
     [CHR 0x0A] @
     ''    </user_question>'' @ [CHR 0x0A] @
     ''    <sql_response>'' @ [CHR 0x0A] @
     ''    '' @
     sql_response @
     [CHR 0x0A] @
     ''    </sql_response>'' @ [CHR 0x0A] @
     ''    ''\<close>

definition msg_translation_failed :: "string" where
  \<comment> \<open>prefix of the answer when no SQL was produced\<close>
  \<open>msg_translation_failed =
     ''Fall'' @ [CHR 0xF3] @ '' la generaci'' @ [CHR 0xF3] @ ''n de la consulta SQL: ''\<close>

definition msg_unknown_error :: "string" where
  \<comment> \<open>default of \<open>sql_response.get("error", ...)\<close>\<close>
  \<open>msg_unknown_error =
     ''Error desconocido''\<close>

definition msg_query_failed :: "string" where
  \<comment> \<open>prefix of the answer when the executor returned an error record\<close>
  \<open>msg_query_failed =
     ''Fall'' @ [CHR 0xF3] @ '' la consulta a la base de datos: ''\<close>

definition msg_answer_failed :: "string" where
  \<comment> \<open>the answer when the summarizer gave no text\<close>
  \<open>msg_answer_failed =
     ''Fall'' @ [CHR 0xF3] @ '' la generaci'' @ [CHR 0xF3] @ ''n de la respuesta''\<close>

definition msg_db_error :: "string" where
  \<comment> \<open>prefix of the sentence \<open>build_answer\<close> returns for an error record\<close>
  \<open>msg_db_error =
     ''Lo siento, hubo un error al consultar la base de datos: ''\<close>

definition msg_apology :: "string" where
  \<comment> \<open>prefix of the apology \<open>build_answer\<close> returns when the LLM call fails\<close>
  \<open>msg_apology =
     ''Lo siento, no pude generar una respuesta. Error: ''\<close>

subsection \<open>human_query_to_sql\<close>

definition strip_fences :: "string \<Rightarrow> string" where
  \<comment> \<open>the two \<open>if\<close> statements that cut a leading and a trailing Markdown fence\<close>
  \<open>strip_fences text_content =
     (let t1 = (if startswith text_content ''```json''
                then py_strip (drop (length ''```json'') text_content)
                else text_content);
          t2 = (if endswith t1 ''```''
                then py_strip (take (length t1 - length ''```'') t1)
                else t1)
      in t2)\<close>

definition translate_contents :: "string \<Rightarrow> string \<Rightarrow> content list" where
  "translate_contents system_message user_message =
     [(''user'', [system_message]), (''model'', [example_turn]), (''user'', [user_message])]"

definition no_sql :: "pyval \<Rightarrow> pyval" where
  \<comment> \<open>\<open>{"sql_query": None, "error": m}\<close>\<close>
  "no_sql m = PDict [(PStr ''sql_query'', PNone), (PStr ''error'', m)]"

definition translate_try :: "env \<Rightarrow> string \<Rightarrow> string \<Rightarrow> world \<Rightarrow> (exn + pyval) \<times> world" where
  \<comment> \<open>the body of the \<open>try\<close> block: the LLM call, the fences, \<open>json.loads\<close>\<close>
  "translate_try E system_message user_message =
     bind (generate_content E ''gemini-2.5-pro'' (translate_contents system_message user_message))
       (\<lambda>text_content.
          case json_loads E (strip_fences text_content) of
            Inl e \<Rightarrow> raise e
          | Inr v \<Rightarrow> ret v)"

definition human_query_to_sql :: "env \<Rightarrow> string \<Rightarrow> world \<Rightarrow> (exn + pyval) \<times> world" where
  \<comment> \<open>\<open>"error" in database_schema\<close> and \<open>database_schema["error"]\<close> run outside the
      \<open>try\<close> block, on whatever \<open>get_schema\<close> returned\<close>
  "human_query_to_sql E human_query w =
     (case get_schema E w of
        (Inl e, w1) \<Rightarrow> (Inl e, w1)
      | (Inr database_schema, w1) \<Rightarrow>
          (case py_in ''error'' database_schema of
             Inl e \<Rightarrow> (Inl e, w1)
           | Inr True \<Rightarrow>
               (case py_getitem database_schema ''error'' of
                  Inl e \<Rightarrow> (Inl e, w1)
                | Inr m \<Rightarrow> (Inr (no_sql m), w1))
           | Inr False \<Rightarrow>
               (case translate_try E (translate_system_message (py_format E database_schema))
                       human_query w1 of
                  (Inl e, w2) \<Rightarrow> (Inr (no_sql (PStr (str_exn e))), w2)
                | (Inr v, w2) \<Rightarrow> (Inr v, w2))))"

subsection \<open>build_answer\<close>

definition build_answer :: "env \<Rightarrow> pyval \<Rightarrow> pyval \<Rightarrow> world \<Rightarrow> (exn + string) \<times> world" where
  \<comment> \<open>the prompt, with \<open>json.dumps(result, indent=2)\<close> in it, is built before the
      \<open>try\<close> block; only the LLM call is inside\<close>
  "build_answer E result human_query w =
     (let w0 = w @ [Call_build_answer result human_query]
      in if is_error_dict result
         then (case py_getitem result ''error'' of
                 Inl e \<Rightarrow> (Inl e, w0)
               | Inr m \<Rightarrow> (Inr (msg_db_error @ py_format E m), w0))
         else (case json_dumps E result of
                 Inl e \<Rightarrow> (Inl e, w0)
               | Inr sql_response \<Rightarrow>
                   (case generate_content E ''gemini-2.5-flash''
                           [(''user'',
                             [answer_system_message (py_format E human_query) sql_response])] w0 of
                      (Inl e, w1) \<Rightarrow> (Inr (msg_apology @ str_exn e), w1)
                    | (Inr text, w1) \<Rightarrow> (Inr text, w1))))"

section \<open>The request handler\<close>

definition answer :: "string \<Rightarrow> pyval" where
  \<comment> \<open>\<open>{"answer": s}\<close>\<close>
  "answer s = PDict [(PStr ''answer'', PStr s)]"

definition human_query_endpoint :: "env \<Rightarrow> string \<Rightarrow> world \<Rightarrow> (exn + pyval) \<times> world" where
  \<comment> \<open>the argument is \<open>payload.human_query\<close>; the function has no \<open>try\<close> block, so an
      exception of any statement leaves it\<close>
  "human_query_endpoint E human_query w =
     (case human_query_to_sql E human_query w of
        (Inl e, w1) \<Rightarrow> (Inl e, w1)
      | (Inr sql_response, w1) \<Rightarrow>
     (case py_getitem sql_response ''sql_query'' of
        Inl e \<Rightarrow> (Inl e, w1)
      | Inr sql_query \<Rightarrow>
          if sql_query = PNone
          then (case py_get sql_response ''error'' (PStr msg_unknown_error) of
                  Inl e \<Rightarrow> (Inl e, w1)
                | Inr m \<Rightarrow> (Inr (answer (msg_translation_failed @ py_format E m)), w1))
          else
     (case py_get sql_response ''original_query'' (PStr human_query) of
        Inl e \<Rightarrow> (Inl e, w1)
      | Inr original_query_from_llm \<Rightarrow>
     (case query E sql_query w1 of
        (Inl e, w2) \<Rightarrow> (Inl e, w2)
      | (Inr result, w2) \<Rightarrow>
          if is_error_dict result
          then (case py_getitem result ''error'' of
                  Inl e \<Rightarrow> (Inl e, w2)
                | Inr m \<Rightarrow> (Inr (answer (msg_query_failed @ py_format E m)), w2))
          else
     (case build_answer E result original_query_from_llm w2 of
        (Inl e, w3) \<Rightarrow> (Inl e, w3)
      | (Inr a, w3) \<Rightarrow>
          if a = [] then (Inr (answer msg_answer_failed), w3)
          else (Inr (answer a), w3))))))"

section \<open>Reading a trace\<close>

definition new_events :: "world \<Rightarrow> world \<Rightarrow> world" where
  \<comment> \<open>what a call added to the trace it started from\<close>
  "new_events w w' = drop (length w) w'"

definition connect_attempts :: "world \<Rightarrow> nat" where
  "connect_attempts t = count_list t (Db Connect True) + count_list t (Db Connect False)"

definition opened :: "world \<Rightarrow> nat" where
  \<comment> \<open>connections that were established\<close>
  "opened t = count_list t (Db Connect True)"

definition closed :: "world \<Rightarrow> nat" where
  \<comment> \<open>calls of \<open>conn.close()\<close> that returned\<close>
  "closed t = count_list t (Db ConnClose True)"

fun loop_event :: "event \<Rightarrow> bool" where
  "loop_event (Db (Execute _) _) = True"
| "loop_event (Db Fetchall _) = True"
| "loop_event _ = False"

fun is_db :: "event \<Rightarrow> bool" where
  "is_db (Db _ _) = True"
| "is_db _ = False"

fun is_llm :: "event \<Rightarrow> bool" where
  "is_llm (Llm _ _ _) = True"
| "is_llm _ = False"

fun is_call_query :: "event \<Rightarrow> bool" where
  "is_call_query (Call_query _) = True"
| "is_call_query _ = False"



section \<open>The routing rule in the words of the specification\<close>




section \<open>Auxiliary definitions for the proofs\<close>

definition finish :: "env \<Rightarrow> pyval \<Rightarrow> world \<Rightarrow> (exn + pyval) \<times> world" where
  \<comment> \<open>\<open>cursor.close(); conn.close()\<close> at the end of a \<open>try\<close> block, written out\<close>
  "finish E results w =
     (case db_raises E w CursorClose of
        Some e \<Rightarrow> (Inl e, w @ [Db CursorClose False])
      | None \<Rightarrow>
     (case db_raises E (w @ [Db CursorClose True]) ConnClose of
        Some e \<Rightarrow> (Inl e, w @ [Db CursorClose True, Db ConnClose False])
      | None \<Rightarrow> (Inr results, w @ [Db CursorClose True, Db ConnClose True])))"

section \<open>Sample collaborators\<close>

text \<open>
  Concrete databases and LLMs on which the theorems below are instantiated.
  \<open>sample_json_text\<close> gives the text of \<open>json.dumps(v, indent=2)\<close> for the few values
  the samples serialize.
\<close>

definition sample_json_text :: "pyval \<Rightarrow> string" where
  \<open>sample_json_text v =
     (if v = PDict [] then ''{}''
      else if v = PList [] then ''[]''
      else if v = PDict [(PStr ''error_log'', PList [])]
        then ''{'' @ [CHR 0x0A] @ ''  "error_log": []'' @ [CHR 0x0A] @ ''}''
      else if v = PList [PDict [(PStr ''total'', PInt 42)]]
        then ''['' @ [CHR 0x0A] @ ''  {'' @ [CHR 0x0A] @ ''    "total": 42'' @ [CHR 0x0A] @
             ''  }'' @ [CHR 0x0A] @ '']''
      else ''null'')\<close>

definition quiet_env :: env where
  \<comment> \<open>a database without tables that accepts everything, an LLM that answers nothing, and
      no text that parses as JSON\<close>
  "quiet_env =
     \<lparr>db_raises = (\<lambda>w op. None),
      db_rows = (\<lambda>w. []),
      llm_reply = (\<lambda>w model contents. Inr ''''),
      json_loads = (\<lambda>t. Inl (ValueError ''Expecting value: line 1 column 1 (char 0)'')),
      json_text = sample_json_text,
      py_repr = (\<lambda>v. ''?'')\<rparr>"

definition db_down :: env where
  \<comment> \<open>the server refuses the connection\<close>
  "db_down = quiet_env
     \<lparr>db_raises := (\<lambda>w op. if op = Connect
                              then Some (MySQLError ''2003 (HY000): Connection refused'')
                              else None)\<rparr>"


definition prose_llm :: env where
  \<comment> \<open>the LLM answers in prose instead of JSON\<close>
  "prose_llm = quiet_env
     \<lparr>llm_reply := (\<lambda>w model contents. Inr ''No puedo generar esa consulta.'')\<rparr>"

definition keyless_llm :: env where
  \<comment> \<open>the LLM answers with a JSON object under another key\<close>
  \<open>keyless_llm = quiet_env
     \<lparr>llm_reply := (\<lambda>w model contents. Inr ''{"query": "SELECT 1"}''),
      json_loads := (\<lambda>t. if t = ''{"query": "SELECT 1"}''
                           then Inr (PDict [(PStr ''query'', PStr ''SELECT 1'')])
                           else Inl (ValueError ''Expecting value: line 1 column 1 (char 0)''))\<rparr>\<close>

definition refusing_llm :: env where
  \<comment> \<open>the LLM answers with a JSON object that only explains why it has no query\<close>
  \<open>refusing_llm = quiet_env
     \<lparr>llm_reply := (\<lambda>w model contents. Inr ''{"error": "No hay tablas en el esquema."}''),
      json_loads := (\<lambda>t. if t = ''{"error": "No hay tablas en el esquema."}''
                           then Inr (PDict [(PStr ''error'', PStr ''No hay tablas en el esquema.'')])
                           else Inl (ValueError ''Expecting value: line 1 column 1 (char 0)''))\<rparr>\<close>

definition error_table_db :: env where
  \<comment> \<open>a database whose only table is called \<open>error_log\<close> (and has no columns)\<close>
  "error_table_db = quiet_env
     \<lparr>db_rows := (\<lambda>w. if w \<noteq> [] \<and> last w = Db (Execute (PStr ''SHOW TABLES'')) True
                       then [[(PStr ''Tables_in_sakila'', PStr ''error_log'')]]
                       else [])\<rparr>"

definition total_reply :: string where
  \<comment> \<open>a fenced reply with both keys\<close>
  \<open>total_reply =
     ''```json'' @ [CHR 0x0A] @
     ''{"sql_query": "SELECT 42 AS total;", "original_query": "Dame el total"}'' @ [CHR 0x0A] @
     ''```''\<close>

definition shop :: env where
  \<comment> \<open>everything works: the question \<open>total\<close> gets a fenced reply with both keys, any
      other question a bare reply without \<open>original_query\<close>; the statement returns one row\<close>
  \<open>shop = quiet_env
     \<lparr>db_rows := (\<lambda>w. if w \<noteq> [] \<and> last w = Db (Execute (PStr ''SELECT 42 AS total;'')) True
                       then [[(PStr ''total'', PInt 42)]]
                       else []),
      llm_reply := (\<lambda>w model contents.
                      if model = ''gemini-2.5-pro''
                      then (if contents \<noteq> [] \<and> last contents = (''user'', [''total''])
                            then Inr total_reply
                            else Inr ''{"sql_query": "SELECT 42 AS total;"}'')
                      else Inr ''El total es 42.''),
      json_loads := (\<lambda>t.
                      if t = ''{"sql_query": "SELECT 42 AS total;", "original_query": "Dame el total"}''
                      then Inr (PDict [(PStr ''sql_query'', PStr ''SELECT 42 AS total;''),
                                       (PStr ''original_query'', PStr ''Dame el total'')])
                      else if t = ''{"sql_query": "SELECT 42 AS total;"}''
                      then Inr (PDict [(PStr ''sql_query'', PStr ''SELECT 42 AS total;'')])
                      else Inl (ValueError ''Expecting value: line 1 column 1 (char 0)''))\<rparr>\<close>

definition timestamp_rows :: pyval where
  \<comment> \<open>what \<open>SELECT last_update FROM actor LIMIT 1\<close> returns on the sakila database: the
      connector turns a TIMESTAMP into a \<open>datetime.datetime\<close>\<close>
  "timestamp_rows = PList [PDict [(PStr ''last_update'', PObj ''datetime.datetime'')]]"

section \<open>Sequencing lemmas\<close>

lemma get_db_connection_eq: "get_db_connection E = db_call E Connect"
  by (rule ext) (simp add: get_db_connection_def split: prod.splits sum.splits exn.splits)

lemma bind_db_call:
  "bind (db_call E op) f w =
     (case db_raises E w op of
        Some e \<Rightarrow> (Inl e, w @ [Db op False])
      | None \<Rightarrow> f () (w @ [Db op True]))"
  by (simp add: bind_def db_call_def split: option.splits)

lemma bind_db_fetchall:
  "bind (db_fetchall E) f w =
     (case db_raises E w Fetchall of
        Some e \<Rightarrow> (Inl e, w @ [Db Fetchall False])
      | None \<Rightarrow> f (db_rows E w) (w @ [Db Fetchall True]))"
  by (simp add: bind_def db_fetchall_def split: option.splits)

lemma bind_ret: "bind (ret x) f w = f x w"
  by (simp add: bind_def ret_def)

lemma bind_raise: "bind (raise e) f w = (Inl e, w)"
  by (simp add: bind_def raise_def)

lemma bind_if: "bind (if c then m else n) f w = (if c then bind m f w else bind n f w)"
  by simp

lemma bind_assoc: "bind (bind m f) g = bind m (\<lambda>x. bind (f x) g)"
  by (rule ext) (simp add: bind_def split: prod.splits sum.splits)

lemmas run_all =
  get_db_connection_eq bind_assoc bind_db_call bind_db_fetchall bind_ret bind_raise bind_if
  ret_def raise_def

lemma query_handlers:
  "query E sql_query w =
     (case query_try E sql_query (w @ [Call_query sql_query]) of
        (Inl e, w') \<Rightarrow> (Inr (error_dict (str_exn e)), w')
      | (Inr results, w') \<Rightarrow> (Inr results, w'))"
  by (simp add: query_def split: prod.splits sum.splits exn.splits)

section \<open>What the database functions write to the trace\<close>

lemma new_events_append [simp]: "new_events w (w @ t) = t"
  by (simp add: new_events_def)

lemma new_events_append2 [simp]: "new_events w (w @ t @ u) = t @ u"
  using new_events_append [of w "t @ u"] by simp


subsection \<open>get_schema\<close>

lemma table_loop_events:
  "\<exists>new. snd (table_loop E si tables w) = w @ new \<and> list_all loop_event new"
proof (induction tables arbitrary: si w)
  case Nil
  show ?case by simp
next
  case (Cons table tables)
  show ?case
  proof (cases "map snd table")
    case Nil
    then show ?thesis by simp
  next
    case (Cons table_name rest)
    note names = this
    show ?thesis
    proof (cases "hashable table_name")
      case False
      with names show ?thesis by simp
    next
      case True
      let ?ex = "Execute (PStr (''DESCRIBE '' @ py_format E table_name))"
      show ?thesis
      proof (cases "db_raises E w ?ex")
        case (Some e)
        with names True show ?thesis by (simp add: db_call_def)
      next
        case None
        note ex = this
        let ?w1 = "w @ [Db ?ex True]"
        show ?thesis
        proof (cases "db_raises E ?w1 Fetchall")
          case (Some e)
          with names True ex show ?thesis by (simp add: db_call_def db_fetchall_def)
        next
          case None
          note fe = this
          let ?w2 = "?w1 @ [Db Fetchall True]"
          show ?thesis
          proof (cases "column_loop (dict_set si table_name (PList [])) table_name (db_rows E ?w1)")
            case (Inl e)
            with names True ex fe show ?thesis by (simp add: db_call_def db_fetchall_def)
          next
            case (Inr si')
            from Cons.IH [of si' ?w2] obtain new where
              new: "snd (table_loop E si' tables ?w2) = ?w2 @ new" "list_all loop_event new"
              by blast
            from names True ex fe Inr new show ?thesis
              by (simp add: db_call_def db_fetchall_def)
          qed
        qed
      qed
    qed
  qed
qed

lemma loop_event_counts:
  "list_all loop_event t \<Longrightarrow>
     count_list t (Db Connect b) = 0 \<and> count_list t (Db ConnClose b) = 0 \<and> list_all is_db t"
proof (induction t)
  case Nil
  show ?case by simp
next
  case (Cons e t)
  then show ?case by (cases e rule: loop_event.cases) auto
qed

lemma get_schema_try_trace:
  "\<exists>new. snd (get_schema_try E w) = w @ new \<and> list_all is_db new \<and> connect_attempts new = 1 \<and>
     (case fst (get_schema_try E w) of
        Inl e \<Rightarrow> closed new = 0
      | Inr si \<Rightarrow> opened new = 1 \<and> closed new = 1 \<and> last new = Db ConnClose True)"
proof -
  let ?w3 = "w @ [Db Connect True, Db Cursor True, Db (Execute (PStr ''SHOW TABLES'')) True, Db Fetchall True]"
  let ?rows = "db_rows E (w @ [Db Connect True, Db Cursor True, Db (Execute (PStr ''SHOW TABLES'')) True])"
  obtain r4 w4 where tl: "table_loop E [] ?rows ?w3 = (r4, w4)"
    by (cases "table_loop E [] ?rows ?w3") blast
  from table_loop_events [of E "[]" ?rows ?w3] tl obtain mid where
    mid: "w4 = ?w3 @ mid" "list_all loop_event mid"
    by auto
  note cnt = loop_event_counts [OF mid(2)]
  show ?thesis
  proof (cases r4)
    case (Inl e)
    with tl mid cnt show ?thesis
      by (simp add: get_schema_try_def run_all bind_def [of "table_loop E [] ?rows"]
            connect_attempts_def opened_def closed_def split: option.splits)
  next
    case (Inr si)
    with tl mid cnt show ?thesis
      by (simp add: get_schema_try_def run_all bind_def [of "table_loop E [] ?rows"]
            connect_attempts_def opened_def closed_def split: option.splits)
  qed
qed

lemma get_schema_cases:
  "get_schema E w =
     (case get_schema_try E w of
        (Inl e, w') \<Rightarrow> (Inr (error_dict (str_exn e)), w')
      | (Inr schema_info, w') \<Rightarrow>
          (if serializable (PDict schema_info)
           then (Inr (PStr (json_text E (PDict schema_info))), w')
           else (Inl (TypeError ''Object is not JSON serializable''), w')))"
  by (simp add: get_schema_def json_dumps_def split: prod.splits sum.splits)

lemma get_schema_snd: "snd (get_schema E w) = snd (get_schema_try E w)"
  by (simp add: get_schema_cases split: prod.splits sum.splits)

lemma get_schema_only_db:
  "\<exists>new. snd (get_schema E w) = w @ new \<and> list_all is_db new"
  using get_schema_try_trace [of E w] by (auto simp: get_schema_snd)

lemma only_db_no_llm: "list_all is_db t \<Longrightarrow> filter is_llm t = [] \<and> filter is_call_query t = []"
proof (induction t)
  case Nil
  show ?case by simp
next
  case (Cons e t)
  then show ?case by (cases e) simp_all
qed

subsection \<open>query\<close>

lemma case_not_str:
  "\<forall>s. sq \<noteq> PStr s \<Longrightarrow>
     (case sq of PNone \<Rightarrow> g | PBool _ \<Rightarrow> g | PInt _ \<Rightarrow> g | PFloat _ \<Rightarrow> g
      | PStr s \<Rightarrow> f s | PList _ \<Rightarrow> g | PDict _ \<Rightarrow> g | PObj _ \<Rightarrow> g) = g"
  by (cases sq) simp_all

lemma query_try_not_str:
  "\<forall>s. sq \<noteq> PStr s \<Longrightarrow> query_try E sq w =
   (case db_raises E w Connect of
      Some e \<Rightarrow> (Inl e, w @ [Db Connect False])
    | None \<Rightarrow>
   (case db_raises E (w @ [Db Connect True]) Cursor of
      Some e \<Rightarrow> (Inl e, w @ [Db Connect True, Db Cursor False])
    | None \<Rightarrow>
   (case db_raises E (w @ [Db Connect True, Db Cursor True]) (Execute sq) of
      Some e \<Rightarrow> (Inl e, w @ [Db Connect True, Db Cursor True, Db (Execute sq) False])
    | None \<Rightarrow> (Inl (AttributeError ''object has no attribute strip''),
               w @ [Db Connect True, Db Cursor True, Db (Execute sq) True]))))"
  by (simp add: query_try_def run_all case_not_str split: option.splits)

lemma query_try_str:
  "query_try E (PStr s) w =
   (case db_raises E w Connect of
      Some e \<Rightarrow> (Inl e, w @ [Db Connect False])
    | None \<Rightarrow>
   (case db_raises E (w @ [Db Connect True]) Cursor of
      Some e \<Rightarrow> (Inl e, w @ [Db Connect True, Db Cursor False])
    | None \<Rightarrow>
   (case db_raises E (w @ [Db Connect True, Db Cursor True]) (Execute (PStr s)) of
      Some e \<Rightarrow> (Inl e, w @ [Db Connect True, Db Cursor True, Db (Execute (PStr s)) False])
    | None \<Rightarrow>
       if is_select s
       then (case db_raises E (w @ [Db Connect True, Db Cursor True, Db (Execute (PStr s)) True]) Fetchall of
               Some e \<Rightarrow> (Inl e, w @ [Db Connect True, Db Cursor True, Db (Execute (PStr s)) True, Db Fetchall False])
             | None \<Rightarrow>
                 finish E (PList (map PDict (db_rows E (w @ [Db Connect True, Db Cursor True, Db (Execute (PStr s)) True]))))
                   (w @ [Db Connect True, Db Cursor True, Db (Execute (PStr s)) True, Db Fetchall True]))
       else (case db_raises E (w @ [Db Connect True, Db Cursor True, Db (Execute (PStr s)) True]) Commit of
               Some e \<Rightarrow> (Inl e, w @ [Db Connect True, Db Cursor True, Db (Execute (PStr s)) True, Db Commit False])
             | None \<Rightarrow>
                 finish E ack
                   (w @ [Db Connect True, Db Cursor True, Db (Execute (PStr s)) True, Db Commit True])))))"
  by (simp add: query_try_def run_all finish_def split: option.splits)





lemma is_error_dict_simps [simp]:
  "is_error_dict (error_dict m)" "\<not> is_error_dict (PList xs)" "\<not> is_error_dict ack"
  "\<not> is_error_dict (PStr s)"
  by (simp_all add: is_error_dict_def error_dict_def ack_def)


lemma query_fst:
  "fst (query E sq w) =
     (case fst (query_try E sq (w @ [Call_query sq])) of
        Inl e \<Rightarrow> Inr (error_dict (str_exn e)) | Inr v \<Rightarrow> Inr v)"
  by (simp add: query_handlers split: prod.splits sum.splits)

lemma query_try_result:
  "fst (query_try E sq w) = Inr v \<Longrightarrow> \<not> is_error_dict v"
proof (cases "\<exists>s. sq = PStr s")
  case True
  assume a: "fst (query_try E sq w) = Inr v"
  from True obtain s where "sq = PStr s" by blast
  with a show ?thesis
    by (auto simp add: query_try_str finish_def split: option.splits if_splits)
next
  case False
  assume "fst (query_try E sq w) = Inr v"
  with False show ?thesis
    by (simp add: query_try_not_str split: option.splits)
qed


section \<open>The translator and the handler on the error records\<close>

lemma h2s_schema_error:
  "fst (get_schema E w) = Inr (error_dict m) \<Longrightarrow>
     human_query_to_sql E hq w = (Inr (no_sql (PStr m)), snd (get_schema E w))"
  by (cases "get_schema E w")
     (simp add: human_query_to_sql_def error_dict_def py_in_def py_getitem_def)

lemma endpoint_no_sql:
  "human_query_to_sql E hq w = (Inr (no_sql (PStr m)), w1) \<Longrightarrow>
     human_query_endpoint E hq w = (Inr (answer (msg_translation_failed @ m)), w1)"
  by (simp add: human_query_endpoint_def no_sql_def py_getitem_def py_get_def py_format_def)

lemma h2s_translate:
  assumes "get_schema E w = (Inr (PStr schema), w1)"
    and "\<not> contains_str ''error'' schema"
  shows "human_query_to_sql E hq w =
     (case translate_try E (translate_system_message schema) hq w1 of
        (Inl e, w2) \<Rightarrow> (Inr (no_sql (PStr (str_exn e))), w2)
      | (Inr v, w2) \<Rightarrow> (Inr v, w2))"
  using assms by (simp add: human_query_to_sql_def py_in_def py_format_def)

lemma translate_try_reply:
  assumes "llm_reply E w1 ''gemini-2.5-pro'' (translate_contents sm hq) = Inr text"
  shows "translate_try E sm hq w1 =
     (case json_loads E (strip_fences text) of Inl e \<Rightarrow> Inl e | Inr v \<Rightarrow> Inr v,
      w1 @ [Llm ''gemini-2.5-pro'' (translate_contents sm hq) True])"
  using assms
  by (simp add: translate_try_def bind_def generate_content_def ret_def raise_def split: sum.splits)

text \<open>
  The translation request reaches the LLM exactly when \<open>get_schema\<close> returned a text
  without the word \<open>error\<close> in it.
\<close>

lemma translate_try_trace:
  "\<exists>b. snd (translate_try E sm hq w1) = w1 @ [Llm ''gemini-2.5-pro'' (translate_contents sm hq) b]"
  by (cases "llm_reply E w1 ''gemini-2.5-pro'' (translate_contents sm hq)")
     (auto simp add: translate_try_def bind_def generate_content_def ret_def raise_def
        split: sum.splits)

lemma get_schema_result:
  "(\<exists>e. fst (get_schema E w) = Inl e) \<or> (\<exists>m. fst (get_schema E w) = Inr (error_dict m)) \<or>
   (\<exists>s. fst (get_schema E w) = Inr (PStr s))"
  by (cases "get_schema_try E w") (auto simp add: get_schema_cases split: sum.splits)

lemma llm_called_iff:
  "filter is_llm (new_events w (snd (human_query_to_sql E human_query w))) \<noteq> [] \<longleftrightarrow>
     (\<exists>schema. fst (get_schema E w) = Inr (PStr schema) \<and> \<not> contains_str ''error'' schema)"
proof -
  obtain r w1 where g: "get_schema E w = (r, w1)"
    by (cases "get_schema E w") blast
  from get_schema_only_db [of E w] g obtain new where
    new: "w1 = w @ new" "list_all is_db new"
    by auto
  note quiet = only_db_no_llm [OF new(2)]
  from get_schema_result [of E w] g consider
    (raised) e where "r = Inl e" | (errors) m where "r = Inr (error_dict m)"
    | (json) s where "r = Inr (PStr s)"
    by auto
  then show ?thesis
  proof cases
    case raised
    with g new quiet show ?thesis
      by (simp add: human_query_to_sql_def)
  next
    case errors
    with g new quiet show ?thesis
      by (simp add: human_query_to_sql_def error_dict_def py_in_def py_getitem_def)
  next
    case json
    show ?thesis
    proof (cases "contains_str ''error'' s")
      case True
      with json g new quiet show ?thesis
        by (simp add: human_query_to_sql_def py_in_def py_getitem_def)
    next
      case False
      from translate_try_trace [of E "translate_system_message s" human_query w1]
      obtain b where
        "snd (translate_try E (translate_system_message s) human_query w1) =
           w1 @ [Llm ''gemini-2.5-pro''
                   (translate_contents (translate_system_message s) human_query) b]"
        by blast
      then have "filter is_llm (new_events w
                   (snd (translate_try E (translate_system_message s) human_query w1))) \<noteq> []"
        using new by simp
      moreover have "snd (human_query_to_sql E human_query w) =
                       snd (translate_try E (translate_system_message s) human_query w1)"
        using json g False
        by (simp add: h2s_translate [of E w s w1] split: prod.splits sum.splits)
      ultimately show ?thesis
        using json g False by simp
    qed
  qed
qed

section \<open>The prefix test\<close>







section \<open>The summarizer\<close>

lemma build_answer_for_error_record:
  "map_of d (PStr ''error'') = Some m \<Longrightarrow>
     fst (build_answer E (PDict d) human_query w) = Inr (msg_db_error @ py_format E m)"
  by (simp add: build_answer_def Let_def is_error_dict_def py_getitem_def)

lemma build_answer_catches_llm:
  assumes "\<not> is_error_dict result" and "serializable result"
  shows "fst (build_answer E result human_query w) =
     (case llm_reply E (w @ [Call_build_answer result human_query]) ''gemini-2.5-flash''
             [(''user'', [answer_system_message (py_format E human_query)
                            (json_text E result)])] of
        Inl e \<Rightarrow> Inr (msg_apology @ str_exn e)
      | Inr text \<Rightarrow> Inr text)"
  using assms
  by (simp add: build_answer_def Let_def json_dumps_def generate_content_def split: sum.splits)

lemma build_answer_raises_outside_try:
  assumes "\<not> is_error_dict result" and "\<not> serializable result"
  shows "build_answer E result human_query w =
     (Inl (TypeError ''Object is not JSON serializable''),
      w @ [Call_build_answer result human_query])"
  using assms by (simp add: build_answer_def Let_def json_dumps_def)

section \<open>The claims\<close>

subsection \<open>C1: the handler and exceptions\<close>

text \<open>
  C1 says that no exception leaves \<open>human_query_endpoint\<close>: every failure becomes a
  returned \<open>{"answer": ...}\<close>. The function has no \<open>try\<close> block of its own and reads
  \<open>sql_response["sql_query"]\<close> unguarded. Here the database has no tables and the LLM
  answers the question with the JSON object \<open>{"error": "No hay tablas en el esquema."}\<close>:
  the translator returns that object, and the handler leaves with a KeyError instead of
  an answer.
\<close>

theorem endpoint_raises_on_reply_without_sql_query:
  "fst (human_query_endpoint refusing_llm ''Cuantos clientes hay?'' []) =
     Inl (KeyError ([CHR 0x27] @ ''sql_query'' @ [CHR 0x27]))"
  by code_simp

subsection \<open>C2: one connection for each database operation\<close>



subsection \<open>C3: the summarizer and exceptions\<close>

text \<open>
  C3 says that \<open>build_answer\<close> never lets an exception reach its caller. Its \<open>try\<close>
  block holds the LLM call only; the prompt, with \<open>json.dumps(result, indent=2)\<close> in it,
  is built before. For the rows of \<open>SELECT last_update FROM actor LIMIT 1\<close>, which hold
  a \<open>datetime\<close>, \<open>json.dumps\<close> raises a TypeError that leaves \<open>build_answer\<close>, before any
  LLM call.
\<close>

theorem build_answer_raises_on_timestamp_rows:
  "build_answer quiet_env timestamp_rows (PStr ''Cuando se actualizo el actor?'') [] =
     (Inl (TypeError ''Object is not JSON serializable''),
      [Call_build_answer timestamp_rows (PStr ''Cuando se actualizo el actor?'')])"
  by code_simp

subsection \<open>C4: a schema error stops the translation\<close>

text \<open>
  C4. If \<open>get_schema\<close> returns the error record \<open>{"error": m}\<close>, then
  \<open>human_query_to_sql\<close> returns \<open>{"sql_query": None, "error": m}\<close> and leaves the trace
  as \<open>get_schema\<close> left it, the handler answers with the translation-failure text followed
  by \<open>m\<close>, and no LLM call is in what the request added to the trace.
\<close>

theorem schema_error_short_circuits:
  assumes "fst (get_schema E w) = Inr (error_dict m)"
  shows "human_query_to_sql E human_query w = (Inr (no_sql (PStr m)), snd (get_schema E w)) \<and>
         human_query_endpoint E human_query w =
           (Inr (answer (msg_translation_failed @ m)), snd (get_schema E w)) \<and>
         filter is_llm (new_events w (snd (human_query_endpoint E human_query w))) = []"
proof -
  note h = h2s_schema_error [OF assms, of human_query]
  note e = endpoint_no_sql [OF h]
  from get_schema_only_db [of E w] obtain new where
    new: "snd (get_schema E w) = w @ new" "list_all is_db new"
    by blast
  from e new only_db_no_llm [OF new(2)] have
    "filter is_llm (new_events w (snd (human_query_endpoint E human_query w))) = []"
    by simp
  with h e show ?thesis by simp
qed

theorem schema_error_short_circuits_witness:
  "human_query_to_sql db_down ''Cuantos clientes hay?'' [] =
     (Inr (no_sql (PStr ''2003 (HY000): Connection refused'')), [Db Connect False]) \<and>
   human_query_endpoint db_down ''Cuantos clientes hay?'' [] =
     (Inr (answer (msg_translation_failed @ ''2003 (HY000): Connection refused'')),
      [Db Connect False]) \<and>
   filter is_llm (new_events [] (snd (human_query_endpoint db_down ''Cuantos clientes hay?'' []))) = []"
proof -
  have g: "get_schema db_down [] =
             (Inr (error_dict ''2003 (HY000): Connection refused''), [Db Connect False])"
    by code_simp
  then have "fst (get_schema db_down []) = Inr (error_dict ''2003 (HY000): Connection refused'')"
    by simp
  from schema_error_short_circuits [OF this, of "''Cuantos clientes hay?''"] g
  show ?thesis by (simp add: new_events_def)
qed

subsection \<open>C5: a reply that is not JSON\<close>

text \<open>
  C5. Suppose the schema was read, its text is free of the word \<open>error\<close> (the only
  case in which the LLM is asked at all, see \<open>llm_called_iff\<close>), and the LLM replied. If
  \<open>json.loads\<close> raises \<open>e\<close> on the reply with its fences removed, then
  \<open>human_query_to_sql\<close> returns \<open>{"sql_query": None, "error": str(e)}\<close>, the handler
  answers with the translation-failure text followed by \<open>str(e)\<close>, and \<open>query\<close> is not
  entered.
\<close>

theorem unparseable_reply_is_translation_failure:
  assumes "fst (get_schema E w) = Inr (PStr schema)"
    and "\<not> contains_str ''error'' schema"
    and "llm_reply E (snd (get_schema E w)) ''gemini-2.5-pro''
           (translate_contents (translate_system_message schema) human_query) = Inr text_content"
    and "json_loads E (strip_fences text_content) = Inl e"
  shows "human_query_to_sql E human_query w =
           (Inr (no_sql (PStr (str_exn e))),
            snd (get_schema E w) @
              [Llm ''gemini-2.5-pro''
                 (translate_contents (translate_system_message schema) human_query) True]) \<and>
         fst (human_query_endpoint E human_query w) =
           Inr (answer (msg_translation_failed @ str_exn e)) \<and>
         filter is_call_query (new_events w (snd (human_query_endpoint E human_query w))) = []"
proof -
  let ?w1 = "snd (get_schema E w)"
  let ?w2 = "?w1 @ [Llm ''gemini-2.5-pro''
                    (translate_contents (translate_system_message schema) human_query) True]"
  have g: "get_schema E w = (Inr (PStr schema), ?w1)"
    using assms(1) by (simp add: prod_eq_iff)
  have h: "human_query_to_sql E human_query w = (Inr (no_sql (PStr (str_exn e))), ?w2)"
    by (simp add: h2s_translate [OF g assms(2)] translate_try_reply [OF assms(3)] assms(4))
  note ep = endpoint_no_sql [OF h]
  from get_schema_only_db [of E w] obtain new where
    new: "?w1 = w @ new" "list_all is_db new"
    by auto
  from ep new only_db_no_llm [OF new(2)] have
    "filter is_call_query (new_events w (snd (human_query_endpoint E human_query w))) = []"
    by simp
  with h ep show ?thesis by simp
qed

theorem unparseable_reply_is_translation_failure_witness:
  "human_query_to_sql prose_llm ''Cuantos clientes hay?'' [] =
     (Inr (no_sql (PStr ''Expecting value: line 1 column 1 (char 0)'')),
      snd (get_schema prose_llm []) @
        [Llm ''gemini-2.5-pro''
           (translate_contents (translate_system_message ''{}'') ''Cuantos clientes hay?'') True]) \<and>
   fst (human_query_endpoint prose_llm ''Cuantos clientes hay?'' []) =
     Inr (answer (msg_translation_failed @ ''Expecting value: line 1 column 1 (char 0)'')) \<and>
   filter is_call_query
     (new_events [] (snd (human_query_endpoint prose_llm ''Cuantos clientes hay?'' []))) = []"
proof -
  have g: "fst (get_schema prose_llm []) = Inr (PStr ''{}'')"
    by code_simp
  have c: "\<not> contains_str ''error'' ''{}''"
    by code_simp
  have l: "llm_reply prose_llm (snd (get_schema prose_llm [])) ''gemini-2.5-pro''
             (translate_contents (translate_system_message ''{}'') ''Cuantos clientes hay?'') =
           Inr ''No puedo generar esa consulta.''"
    by (simp add: prose_llm_def quiet_env_def)
  have j: "json_loads prose_llm (strip_fences ''No puedo generar esa consulta.'') =
           Inl (ValueError ''Expecting value: line 1 column 1 (char 0)'')"
    by (simp add: prose_llm_def quiet_env_def)
  from unparseable_reply_is_translation_failure [OF g c l j] show ?thesis
    by (simp add: new_events_def)
qed

subsection \<open>C6: reads and writes\<close>



subsection \<open>C7: the executor and exceptions\<close>

text \<open>
  C7. \<open>query\<close> never raises: for every argument, every database and every trace it returns
  a value. When a statement of its \<open>try\<close> block raised \<open>e\<close>, be it a
  \<open>mysql.connector.Error\<close> or any other exception, the value is the error record
  \<open>{"error": str(e)}\<close>; otherwise it is the result of the block, which is never an error
  record.
\<close>

theorem query_never_raises:
  "\<exists>v. fst (query E sql_query w) = Inr v \<and>
       (case fst (query_try E sql_query (w @ [Call_query sql_query])) of
          Inl e \<Rightarrow> v = error_dict (str_exn e)
        | Inr results \<Rightarrow> v = results \<and> \<not> is_error_dict v)"
proof (cases "fst (query_try E sql_query (w @ [Call_query sql_query]))")
  case (Inl e)
  then show ?thesis by (simp add: query_fst)
next
  case (Inr results)
  with query_try_result [OF Inr] show ?thesis by (simp add: query_fst)
qed

subsection \<open>C8: a schema whose text contains the word error\<close>

text \<open>
  C8. When the \<open>try\<close> block of \<open>get_schema\<close> succeeds and the schema can be serialized,
  \<open>get_schema\<close> returns the JSON text, a str. The test \<open>"error" in database_schema\<close> is
  then a substring test; if the text contains \<open>error\<close>, indexing the str with
  \<open>["error"]\<close> raises a TypeError, which leaves \<open>human_query_to_sql\<close> and the handler;
  no LLM call has been made.
\<close>

theorem schema_text_with_error_raises:
  assumes "fst (get_schema_try E w) = Inr schema_info"
    and "serializable (PDict schema_info)"
    and "contains_str ''error'' (json_text E (PDict schema_info))"
  shows "fst (get_schema E w) = Inr (PStr (json_text E (PDict schema_info))) \<and>
         py_in ''error'' (PStr (json_text E (PDict schema_info))) = Inr True \<and>
         human_query_to_sql E human_query w =
           (Inl (TypeError ''string indices must be integers''), snd (get_schema E w)) \<and>
         human_query_endpoint E human_query w =
           (Inl (TypeError ''string indices must be integers''), snd (get_schema E w)) \<and>
         filter is_llm (new_events w (snd (human_query_endpoint E human_query w))) = []"
proof -
  obtain w1 where t: "get_schema_try E w = (Inr schema_info, w1)"
    using assms(1) by (cases "get_schema_try E w") simp
  have g: "get_schema E w = (Inr (PStr (json_text E (PDict schema_info))), w1)"
    using t assms(2) by (simp add: get_schema_cases del: serializable.simps)
  have i: "py_in ''error'' (PStr (json_text E (PDict schema_info))) = Inr True"
    using assms(3) by (simp add: py_in_def)
  have h: "human_query_to_sql E human_query w =
           (Inl (TypeError ''string indices must be integers''), w1)"
    using g i by (simp add: human_query_to_sql_def py_getitem_def)
  have ep: "human_query_endpoint E human_query w =
           (Inl (TypeError ''string indices must be integers''), w1)"
    using h by (simp add: human_query_endpoint_def)
  from get_schema_only_db [of E w] g obtain new where
    new: "w1 = w @ new" "list_all is_db new"
    by auto
  from ep new only_db_no_llm [OF new(2)] have
    "filter is_llm (new_events w (snd (human_query_endpoint E human_query w))) = []"
    by simp
  with g i h ep show ?thesis by simp
qed

theorem schema_text_with_error_raises_witness:
  "fst (get_schema error_table_db []) =
     Inr (PStr (''{'' @ [CHR 0x0A] @ ''  \"error_log\": []'' @ [CHR 0x0A] @ ''}'')) \<and>
   fst (human_query_to_sql error_table_db ''Cuantos clientes hay?'' []) =
     Inl (TypeError ''string indices must be integers'') \<and>
   fst (human_query_endpoint error_table_db ''Cuantos clientes hay?'' []) =
     Inl (TypeError ''string indices must be integers'')"
proof -
  have t: "fst (get_schema_try error_table_db []) = Inr [(PStr ''error_log'', PList [])]"
    by code_simp
  have s: "serializable (PDict [(PStr ''error_log'', PList [])])"
    by code_simp
  have j: "json_text error_table_db (PDict [(PStr ''error_log'', PList [])]) =
             ''{'' @ [CHR 0x0A] @ ''  \"error_log\": []'' @ [CHR 0x0A] @ ''}''"
    by code_simp
  have c: "contains_str ''error''
             (json_text error_table_db (PDict [(PStr ''error_log'', PList [])]))"
    by code_simp
  from schema_text_with_error_raises [OF t s c, of "''Cuantos clientes hay?''"] j
  show ?thesis by simp
qed

subsection \<open>C9: a reply without the key sql_query\<close>

text \<open>
  C9. Suppose the schema was read, its text is free of the word \<open>error\<close>, and the LLM
  replied to the translation request. If the
  reply, fences removed, parses as a JSON object, \<open>human_query_to_sql\<close> returns that object
  as it is; and if the object has no key \<open>sql_query\<close>, the handler's
  \<open>sql_response["sql_query"]\<close> raises a KeyError that leaves the handler.
\<close>

theorem missing_sql_query_key_raises:
  assumes "fst (get_schema E w) = Inr (PStr schema)"
    and "\<not> contains_str ''error'' schema"
    and "llm_reply E (snd (get_schema E w)) ''gemini-2.5-pro''
           (translate_contents (translate_system_message schema) human_query) = Inr text_content"
    and "json_loads E (strip_fences text_content) = Inr (PDict d)"
    and "map_of d (PStr ''sql_query'') = None"
  shows "fst (human_query_to_sql E human_query w) = Inr (PDict d) \<and>
         human_query_endpoint E human_query w =
           (Inl (KeyError ([CHR 0x27] @ ''sql_query'' @ [CHR 0x27])),
            snd (human_query_to_sql E human_query w))"
proof -
  let ?w1 = "snd (get_schema E w)"
  let ?w2 = "?w1 @ [Llm ''gemini-2.5-pro''
                    (translate_contents (translate_system_message schema) human_query) True]"
  have g: "get_schema E w = (Inr (PStr schema), ?w1)"
    using assms(1) by (simp add: prod_eq_iff)
  have h: "human_query_to_sql E human_query w = (Inr (PDict d), ?w2)"
    by (simp add: h2s_translate [OF g assms(2)] translate_try_reply [OF assms(3)] assms(4))
  have "human_query_endpoint E human_query w =
           (Inl (KeyError ([CHR 0x27] @ ''sql_query'' @ [CHR 0x27])), ?w2)"
    using h assms(5) by (simp add: human_query_endpoint_def py_getitem_def)
  with h show ?thesis by simp
qed

theorem missing_sql_query_key_raises_witness:
  "fst (human_query_to_sql keyless_llm ''Cuantos clientes hay?'' []) =
     Inr (PDict [(PStr ''query'', PStr ''SELECT 1'')]) \<and>
   fst (human_query_endpoint keyless_llm ''Cuantos clientes hay?'' []) =
     Inl (KeyError ([CHR 0x27] @ ''sql_query'' @ [CHR 0x27]))"
proof -
  have g: "fst (get_schema keyless_llm []) = Inr (PStr ''{}'')"
    by code_simp
  have c: "\<not> contains_str ''error'' ''{}''"
    by code_simp
  have l: "llm_reply keyless_llm (snd (get_schema keyless_llm [])) ''gemini-2.5-pro''
             (translate_contents (translate_system_message ''{}'') ''Cuantos clientes hay?'') =
           Inr ''{\"query\": \"SELECT 1\"}''"
    by (simp add: keyless_llm_def quiet_env_def)
  have j: "json_loads keyless_llm (strip_fences ''{\"query\": \"SELECT 1\"}'') =
           Inr (PDict [(PStr ''query'', PStr ''SELECT 1'')])"
    by code_simp
  have k: "map_of [(PStr ''query'', PStr ''SELECT 1'')] (PStr ''sql_query'') = None"
    by simp
  from missing_sql_query_key_raises [OF g c l j k] show ?thesis by simp
qed

subsection \<open>C10: the question handed to the summarizer\<close>

text \<open>
  C10. Suppose the translation returned an object whose \<open>sql_query\<close> is not None and
  \<open>query\<close> returned something other than an error record. Then the handler enters
  \<open>build_answer\<close> next, with that result and, as the question, the value under
  \<open>original_query\<close> if the object has that key, and the incoming
  \<open>payload.human_query\<close> if it has not.
\<close>

theorem summarizer_gets_original_query:
  assumes "fst (human_query_to_sql E human_query w) = Inr (PDict d)"
    and "map_of d (PStr ''sql_query'') = Some sql_query"
    and "sql_query \<noteq> PNone"
    and "query E sql_query (snd (human_query_to_sql E human_query w)) = (Inr result, w2)"
    and "\<not> is_error_dict result"
  shows "take 1 (new_events w2 (snd (human_query_endpoint E human_query w))) =
           [Call_build_answer result
              (case map_of d (PStr ''original_query'') of
                 None \<Rightarrow> PStr human_query
               | Some original_query \<Rightarrow> original_query)] \<and>
         snd (human_query_endpoint E human_query w) =
           snd (build_answer E result
                  (case map_of d (PStr ''original_query'') of
                     None \<Rightarrow> PStr human_query
                   | Some original_query \<Rightarrow> original_query) w2)"
proof -
  let ?oq = "case map_of d (PStr ''original_query'') of
               None \<Rightarrow> PStr human_query | Some original_query \<Rightarrow> original_query"
  obtain w1 where h: "human_query_to_sql E human_query w = (Inr (PDict d), w1)"
    using assms(1) by (cases "human_query_to_sql E human_query w") simp
  have q: "query E sql_query w1 = (Inr result, w2)"
    using assms(4) h by simp
  have oq: "py_get (PDict d) ''original_query'' (PStr human_query) = Inr ?oq"
    by (simp add: py_get_def split: option.splits)
  obtain r3 w3 where b: "build_answer E result ?oq w2 = (r3, w3)"
    by (cases "build_answer E result ?oq w2") blast
  have "snd (human_query_endpoint E human_query w) = w3"
    using h q b oq assms(2,3,5)
    by (cases r3) (simp_all add: human_query_endpoint_def py_getitem_def)
  with b have ep:
    "snd (human_query_endpoint E human_query w) = snd (build_answer E result ?oq w2)"
    by simp
  have "\<exists>rest. snd (build_answer E result ?oq w2) = w2 @ Call_build_answer result ?oq # rest"
    by (simp add: build_answer_def Let_def generate_content_def split: sum.splits prod.splits)
  with ep show ?thesis by auto
qed

theorem summarizer_gets_original_query_witness:
  "take 1 (new_events (snd (query shop (PStr ''SELECT 42 AS total;'')
                              (snd (human_query_to_sql shop ''total'' []))))
             (snd (human_query_endpoint shop ''total'' []))) =
     [Call_build_answer (PList [PDict [(PStr ''total'', PInt 42)]]) (PStr ''Dame el total'')] \<and>
   take 1 (new_events (snd (query shop (PStr ''SELECT 42 AS total;'')
                              (snd (human_query_to_sql shop ''suma'' []))))
             (snd (human_query_endpoint shop ''suma'' []))) =
     [Call_build_answer (PList [PDict [(PStr ''total'', PInt 42)]]) (PStr ''suma'')]"
proof -
  let ?rows = "PList [PDict [(PStr ''total'', PInt 42)]]"
  let ?sql = "PStr ''SELECT 42 AS total;''"
  have h1: "fst (human_query_to_sql shop ''total'' []) =
              Inr (PDict [(PStr ''sql_query'', ?sql),
                          (PStr ''original_query'', PStr ''Dame el total'')])"
    by code_simp
  have h2: "fst (human_query_to_sql shop ''suma'' []) = Inr (PDict [(PStr ''sql_query'', ?sql)])"
    by code_simp
  have k1: "map_of [(PStr ''sql_query'', ?sql), (PStr ''original_query'', PStr ''Dame el total'')]
              (PStr ''sql_query'') = Some ?sql"
    by simp
  have k2: "map_of [(PStr ''sql_query'', ?sql)] (PStr ''sql_query'') = Some ?sql"
    by simp
  have n: "?sql \<noteq> PNone"
    by simp
  have q1: "fst (query shop ?sql (snd (human_query_to_sql shop ''total'' []))) = Inr ?rows"
    by code_simp
  have q2: "fst (query shop ?sql (snd (human_query_to_sql shop ''suma'' []))) = Inr ?rows"
    by code_simp
  have e: "\<not> is_error_dict ?rows"
    by simp
  have p1: "query shop ?sql (snd (human_query_to_sql shop ''total'' [])) =
              (Inr ?rows, snd (query shop ?sql (snd (human_query_to_sql shop ''total'' []))))"
    using q1 by (simp add: prod_eq_iff)
  have p2: "query shop ?sql (snd (human_query_to_sql shop ''suma'' [])) =
              (Inr ?rows, snd (query shop ?sql (snd (human_query_to_sql shop ''suma'' []))))"
    using q2 by (simp add: prod_eq_iff)
  note a1 = summarizer_gets_original_query [OF h1 k1 n p1 e, THEN conjunct1]
  note a2 = summarizer_gets_original_query [OF h2 k2 n p2 e, THEN conjunct1]
  from a1 a2 show ?thesis by simp
qed


end
